theory Spec2Isabelle
  imports Complex_Main
begin

section \<open>Husky base hardware interface (husky\_base.cpp)\<close>

text \<open>
  A shallow embedding of \<^verbatim>\<open>src/husky_base/src/husky_base.cpp\<close>: the unit conversion,
  the encoder update with rollover rejection, the travel-offset calibration, the
  differential speed limit and the configure/start/read/write entry points of class
  \<^verbatim>\<open>HuskyBase\<close>.

  The member variables of the class are the fields of the record \<open>husky\<close> (the source
  names end in an underscore, which a constant name here cannot; it is dropped).  Each
  member function takes the object state and returns the new one.  The answers of the
  drivetrain library (\<^verbatim>\<open>horizon_legacy::Channel<T>::requestData\<close>) are arguments of the
  functions that ask for them: \<open>None\<close> is the null pointer returned after the polling
  timeout.  The calls sent to the drivetrain are appended to the field \<open>drivetrain\<close>.
  Log output is not modelled, and neither are \<^verbatim>\<open>stop\<close> and the two functions that export
  the interfaces, which no property below needs.
\<close>

subsection \<open>Values of type double\<close>

text \<open>
  A C++ \<^verbatim>\<open>double\<close> is modelled by its IEEE-754 classes: not-a-number, the two infinities
  and the finite values.  Finite results are computed exactly, as real numbers: rounding
  to 53 bits, overflow to infinity, underflow and the sign of zero are left out.  The
  special values follow IEEE-754 (every operation on NaN gives NaN, every comparison with
  NaN is false, \<open>\<infinity> - \<infinity>\<close>, \<open>0 * \<infinity>\<close>, \<open>0 / 0\<close> and \<open>\<infinity> / \<infinity>\<close> are NaN, a nonzero
  finite value divided by zero is an infinity).  Theorems below that hold only because
  finite arithmetic is exact here are not offered as statements about the compiled code.
\<close>

datatype double = NaN | NInf | PInf | Fin real

fun isnan :: "double \<Rightarrow> bool" where
  "isnan NaN = True"
| "isnan _ = False"

fun dneg :: "double \<Rightarrow> double" where
  "dneg NaN = NaN"
| "dneg NInf = PInf"
| "dneg PInf = NInf"
| "dneg (Fin x) = Fin (- x)"

fun dadd :: "double \<Rightarrow> double \<Rightarrow> double" where
  "dadd NaN _ = NaN"
| "dadd _ NaN = NaN"
| "dadd PInf NInf = NaN"
| "dadd NInf PInf = NaN"
| "dadd PInf _ = PInf"
| "dadd _ PInf = PInf"
| "dadd NInf _ = NInf"
| "dadd _ NInf = NInf"
| "dadd (Fin x) (Fin y) = Fin (x + y)"

definition dsub :: "double \<Rightarrow> double \<Rightarrow> double" where
  "dsub a b = dadd a (dneg b)"

fun dmul :: "double \<Rightarrow> double \<Rightarrow> double" where
  "dmul NaN _ = NaN"
| "dmul _ NaN = NaN"
| "dmul (Fin x) (Fin y) = Fin (x * y)"
| "dmul (Fin x) PInf = (if x = 0 then NaN else if 0 < x then PInf else NInf)"
| "dmul (Fin x) NInf = (if x = 0 then NaN else if 0 < x then NInf else PInf)"
| "dmul PInf (Fin y) = (if y = 0 then NaN else if 0 < y then PInf else NInf)"
| "dmul NInf (Fin y) = (if y = 0 then NaN else if 0 < y then NInf else PInf)"
| "dmul PInf PInf = PInf"
| "dmul PInf NInf = NInf"
| "dmul NInf PInf = NInf"
| "dmul NInf NInf = PInf"

fun ddiv :: "double \<Rightarrow> double \<Rightarrow> double" where
  "ddiv NaN _ = NaN"
| "ddiv _ NaN = NaN"
| "ddiv (Fin x) (Fin y) =
     (if y = 0 then (if x = 0 then NaN else if 0 < x then PInf else NInf)
      else Fin (x / y))"
| "ddiv (Fin x) PInf = Fin 0"
| "ddiv (Fin x) NInf = Fin 0"
| "ddiv PInf (Fin y) = (if 0 \<le> y then PInf else NInf)"
| "ddiv NInf (Fin y) = (if 0 \<le> y then NInf else PInf)"
| "ddiv PInf PInf = NaN"
| "ddiv PInf NInf = NaN"
| "ddiv NInf PInf = NaN"
| "ddiv NInf NInf = NaN"

text \<open>\<^verbatim>\<open>std::abs\<close> on a double.\<close>

fun dabs :: "double \<Rightarrow> double" where
  "dabs NaN = NaN"
| "dabs NInf = PInf"
| "dabs PInf = PInf"
| "dabs (Fin x) = Fin \<bar>x\<bar>"

text \<open>The comparisons \<^verbatim>\<open><\<close> and \<^verbatim>\<open><=\<close>; \<^verbatim>\<open>a > b\<close> is \<open>dlt b a\<close>, \<^verbatim>\<open>a >= b\<close> is \<open>dle b a\<close>.\<close>

fun dlt :: "double \<Rightarrow> double \<Rightarrow> bool" where
  "dlt NaN _ = False"
| "dlt _ NaN = False"
| "dlt PInf _ = False"
| "dlt _ NInf = False"
| "dlt NInf _ = True"
| "dlt _ PInf = True"
| "dlt (Fin x) (Fin y) = (x < y)"

fun dle :: "double \<Rightarrow> double \<Rightarrow> bool" where
  "dle NaN _ = False"
| "dle _ NaN = False"
| "dle NInf _ = True"
| "dle _ PInf = True"
| "dle PInf _ = False"
| "dle _ NInf = False"
| "dle (Fin x) (Fin y) = (x \<le> y)"

definition dgt :: "double \<Rightarrow> double \<Rightarrow> bool" where
  "dgt a b = dlt b a"

definition dge :: "double \<Rightarrow> double \<Rightarrow> bool" where
  "dge a b = dle b a"

text \<open>\<^verbatim>\<open>std::max(a, b)\<close> is \<^verbatim>\<open>(a < b) ? b : a\<close>.\<close>

definition dmax :: "double \<Rightarrow> double \<Rightarrow> double" where
  "dmax a b = (if dlt a b then b else a)"

subsection \<open>Data\<close>

datatype return_type = OK | ERROR

text \<open>
  Modelled from the spec: the enumeration \<^verbatim>\<open>hardware_interface::status\<close> is declared in
  the ros2\_control library; the source assigns \<open>CONFIGURED\<close>, \<open>STARTED\<close> and \<open>STOPPED\<close>,
  the spec names the fourth value Unconfigured.
\<close>

datatype status = UNCONFIGURED | CONFIGURED | STARTED | STOPPED

text \<open>
  Modelled from the spec: the interface names \<^verbatim>\<open>HW_IF_POSITION\<close> and \<^verbatim>\<open>HW_IF_VELOCITY\<close>
  are constants of the ros2\_control library, the position and the velocity interface.
\<close>

definition HW_IF_POSITION :: string where
  "HW_IF_POSITION = ''position''"

definition HW_IF_VELOCITY :: string where
  "HW_IF_VELOCITY = ''velocity''"

text \<open>
  The parts of \<^verbatim>\<open>hardware_interface::HardwareInfo\<close> that the source reads.  The three
  structs each have a member \<^verbatim>\<open>name\<close>; the fields are told apart here.
\<close>

record InterfaceInfo =
  interface_name :: string

record ComponentInfo =
  component_name :: string
  command_interfaces :: "InterfaceInfo list"
  state_interfaces :: "InterfaceInfo list"

record HardwareInfo =
  hardware_name :: string
  joints :: "ComponentInfo list"
  hardware_parameters :: "string \<rightharpoonup> string"

text \<open>The two samples of the drivetrain, \<^verbatim>\<open>clearpath::DataEncoders\<close> and
  \<^verbatim>\<open>clearpath::DataDifferentialSpeed\<close>.\<close>

record DataEncoders =
  travel_left :: double
  travel_right :: double

record DataDifferentialSpeed =
  left_speed :: double
  right_speed :: double

definition LEFT :: nat where
  "LEFT = 0"

definition RIGHT :: nat where
  "RIGHT = 1"

definition getTravel :: "DataEncoders \<Rightarrow> nat \<Rightarrow> double" where
  "getTravel enc k = (if k = LEFT then travel_left enc else travel_right enc)"

definition getLeftSpeed :: "DataDifferentialSpeed \<Rightarrow> double" where
  "getLeftSpeed speed = left_speed speed"

definition getRightSpeed :: "DataDifferentialSpeed \<Rightarrow> double" where
  "getRightSpeed speed = right_speed speed"

text \<open>The calls made to the drivetrain library \<^verbatim>\<open>horizon_legacy\<close>.\<close>

datatype drive_call =
  Connect string
  | ConfigureLimits double double
  | ControlSpeed double double double double

record husky =
  info :: HardwareInfo
  status :: status
  hw_start_sec :: double
  hw_stop_sec :: double
  hw_states_position :: "double list"
  hw_states_position_offset :: "double list"
  hw_states_velocity :: "double list"
  hw_commands :: "double list"
  wheel_diameter :: double
  max_accel :: double
  max_speed :: double
  polling_timeout :: double
  serial_port :: string
  drivetrain :: "drive_call list"

text \<open>
  The four vectors are indexed by the same joint number.  \<^verbatim>\<open>configure\<close> resizes them to
  the number of joints; an index outside a vector is undefined behaviour in C++, so the
  theorems about a loop over the joints assume that the sizes agree.
\<close>

definition sizes_agree :: "husky \<Rightarrow> bool" where
  "sizes_agree s \<longleftrightarrow>
     length (hw_states_position_offset s) = length (hw_states_position s) \<and>
     length (hw_states_velocity s) = length (hw_states_position s) \<and>
     length (hw_commands s) = length (hw_states_position s)"

subsection \<open>Unit conversion\<close>

definition linearToAngular :: "husky \<Rightarrow> double \<Rightarrow> double" where
  "linearToAngular s travel = dmul (ddiv travel (wheel_diameter s)) (Fin 2)"

definition angularToLinear :: "husky \<Rightarrow> double \<Rightarrow> double" where
  "angularToLinear s angle = ddiv (dmul angle (wheel_diameter s)) (Fin 2)"

subsection \<open>Calibration of the travel offset\<close>

definition resetTravelOffset_step :: "DataEncoders \<Rightarrow> nat \<Rightarrow> husky \<Rightarrow> husky" where
  "resetTravelOffset_step enc i s =
     s\<lparr>hw_states_position_offset :=
         (hw_states_position_offset s)[i := linearToAngular s (getTravel enc (i mod 2))]\<rparr>"

definition resetTravelOffset :: "DataEncoders option \<Rightarrow> husky \<Rightarrow> husky" where
  "resetTravelOffset enc s =
     (case enc of
        Some e \<Rightarrow>
          fold (resetTravelOffset_step e) [0..<length (hw_states_position_offset s)] s
      | None \<Rightarrow> s)"

subsection \<open>Speed limit and write\<close>

definition limitDifferentialSpeed :: "husky \<Rightarrow> double \<times> double \<Rightarrow> double \<times> double" where
  "limitDifferentialSpeed s p =
     (case p of (diff_speed_left, diff_speed_right) \<Rightarrow>
        let large_speed = dmax (dabs diff_speed_left) (dabs diff_speed_right)
        in if dgt large_speed (max_speed s)
           then (dmul diff_speed_left (ddiv (max_speed s) large_speed),
                 dmul diff_speed_right (ddiv (max_speed s) large_speed))
           else (diff_speed_left, diff_speed_right))"

definition writeCommandsToHardware :: "husky \<Rightarrow> husky" where
  "writeCommandsToHardware s =
     (let diff_speed_left = angularToLinear s (hw_commands s ! LEFT);
          diff_speed_right = angularToLinear s (hw_commands s ! RIGHT)
      in case limitDifferentialSpeed s (diff_speed_left, diff_speed_right) of
           (l, r) \<Rightarrow> s\<lparr>drivetrain := drivetrain s @ [ControlSpeed l r (max_accel s) (max_accel s)]\<rparr>)"

subsection \<open>Encoder update\<close>

text \<open>The difference of line 96, for joint \<open>i\<close> and the encoder sample \<open>enc\<close>.\<close>

definition travel_delta :: "DataEncoders \<Rightarrow> nat \<Rightarrow> husky \<Rightarrow> double" where
  "travel_delta enc i s =
     dsub (dsub (linearToAngular s (getTravel enc (i mod 2))) (hw_states_position s ! i))
          (hw_states_position_offset s ! i)"

definition travel_step :: "DataEncoders \<Rightarrow> nat \<Rightarrow> husky \<Rightarrow> husky" where
  "travel_step enc i s =
     (let delta = travel_delta enc i s
      in if dlt (dabs delta) (Fin 1)
         then s\<lparr>hw_states_position :=
                  (hw_states_position s)[i := dadd (hw_states_position s ! i) delta]\<rparr>
         else s\<lparr>hw_states_position_offset :=
                  (hw_states_position_offset s)[i := dadd (hw_states_position_offset s ! i) delta]\<rparr>)"

definition speed_step :: "DataDifferentialSpeed \<Rightarrow> nat \<Rightarrow> husky \<Rightarrow> husky" where
  "speed_step speed i s =
     (if i mod 2 = LEFT
      then s\<lparr>hw_states_velocity :=
               (hw_states_velocity s)[i := linearToAngular s (getLeftSpeed speed)]\<rparr>
      else s\<lparr>hw_states_velocity :=
               (hw_states_velocity s)[i := linearToAngular s (getRightSpeed speed)]\<rparr>)"

definition updateJointsFromHardware ::
  "DataEncoders option \<Rightarrow> DataDifferentialSpeed option \<Rightarrow> husky \<Rightarrow> husky" where
  "updateJointsFromHardware enc speed s =
     (let s1 = (case enc of
                  Some e \<Rightarrow> fold (travel_step e) [0..<length (hw_states_position s)] s
                | None \<Rightarrow> s)
      in case speed of
           Some sp \<Rightarrow> fold (speed_step sp) [0..<length (hw_states_velocity s1)] s1
         | None \<Rightarrow> s1)"

definition read :: "DataEncoders option \<Rightarrow> DataDifferentialSpeed option \<Rightarrow> husky
    \<Rightarrow> return_type \<times> husky" where
  "read enc speed s = (OK, updateJointsFromHardware enc speed s)"

definition "write" :: "husky \<Rightarrow> return_type \<times> husky" where
  "write s = (OK, writeCommandsToHardware s)"

subsection \<open>start\<close>

text \<open>
  The warm-up loop \<^verbatim>\<open>for (auto i = 0; i <= hw_start_sec_; i++)\<close> sleeps one second per
  round.  The counter is an \<^verbatim>\<open>int\<close>: the result is the number of rounds, or \<open>None\<close> when
  the counter would be incremented past \<^verbatim>\<open>INT_MAX\<close>, where the loop has no defined
  behaviour (a duration of at least \<open>2\<^sup>3\<^sup>1 - 1\<close> seconds, or infinite).
\<close>

function start_wait :: "int \<Rightarrow> double \<Rightarrow> nat option" where
  "start_wait i d =
     (if dle (Fin (of_int i)) d
      then (if 2147483647 \<le> i then None else map_option Suc (start_wait (i + 1) d))
      else Some 0)"
  by pat_completeness auto
termination
  by (relation "measure (\<lambda>(i, d). nat (2147483647 - i))") auto

declare start_wait.simps [simp del]

definition start_step :: "nat \<Rightarrow> husky \<Rightarrow> husky" where
  "start_step i s =
     (if isnan (hw_states_position s ! i)
      then s\<lparr>hw_states_position := (hw_states_position s)[i := Fin 0],
             hw_states_position_offset := (hw_states_position_offset s)[i := Fin 0],
             hw_states_velocity := (hw_states_velocity s)[i := Fin 0],
             hw_commands := (hw_commands s)[i := Fin 0]\<rparr>
      else s)"

definition start :: "husky \<Rightarrow> (return_type \<times> husky) option" where
  "start s =
     (case start_wait 0 (hw_start_sec s) of
        None \<Rightarrow> None
      | Some _ \<Rightarrow>
          Some (OK, (fold start_step [0..<length (hw_states_position s)] s)\<lparr>status := STARTED\<rparr>))"

subsection \<open>configure\<close>

text \<open>
  \<^verbatim>\<open>info_.hardware_parameters[key]\<close> on an \<^verbatim>\<open>unordered_map\<close>: a key that is absent is
  inserted with the empty string, which is returned.
\<close>

definition hardware_parameter :: "string \<Rightarrow> husky \<Rightarrow> string \<times> husky" where
  "hardware_parameter k s =
     (case hardware_parameters (info s) k of
        Some v \<Rightarrow> (v, s)
      | None \<Rightarrow>
          ([], s\<lparr>info := (info s)\<lparr>hardware_parameters :=
                                    (hardware_parameters (info s))(k \<mapsto> [])\<rparr>\<rparr>))"

text \<open>
  \<^verbatim>\<open>std::stod\<close> is a parameter: \<open>stod v = None\<close> when the library function throws
  (\<^verbatim>\<open>std::invalid_argument\<close>, \<^verbatim>\<open>std::out_of_range\<close>).  The exception leaves
  \<^verbatim>\<open>configure\<close>; the result \<open>Inl\<close> carries the object as it is then.
\<close>

datatype exn = stod_exception

definition stod_parameter ::
  "(string \<Rightarrow> double option) \<Rightarrow> string \<Rightarrow> husky \<Rightarrow> (exn \<times> husky) + (double \<times> husky)" where
  "stod_parameter stod k s =
     (case hardware_parameter k s of
        (v, s') \<Rightarrow> (case stod v of None \<Rightarrow> Inl (stod_exception, s') | Some d \<Rightarrow> Inr (d, s')))"

definition and_then :: "('e + 'a) \<Rightarrow> ('a \<Rightarrow> 'e + 'b) \<Rightarrow> 'e + 'b" where
  "and_then m f = (case m of Inl e \<Rightarrow> Inl e | Inr a \<Rightarrow> f a)"

text \<open>\<^verbatim>\<open>std::vector::resize(n, v)\<close>.\<close>

definition resize :: "'a list \<Rightarrow> nat \<Rightarrow> 'a \<Rightarrow> 'a list" where
  "resize xs n v = take n xs @ replicate (n - length xs) v"

text \<open>Lines 149 to 161: the parameters and the four vectors.\<close>

definition configure_parameters ::
  "(string \<Rightarrow> double option) \<Rightarrow> husky \<Rightarrow> (exn \<times> husky) + husky" where
  "configure_parameters stod s =
     and_then (stod_parameter stod ''hw_start_duration_sec'' s) (\<lambda>(v, s).
     and_then (stod_parameter stod ''hw_stop_duration_sec'' (s\<lparr>hw_start_sec := v\<rparr>)) (\<lambda>(v, s).
     let s = s\<lparr>hw_stop_sec := v\<rparr>;
         s = s\<lparr>hw_states_position :=
                 resize (hw_states_position s) (length (joints (info s))) NaN\<rparr>;
         s = s\<lparr>hw_states_position_offset :=
                 resize (hw_states_position_offset s) (length (joints (info s))) NaN\<rparr>;
         s = s\<lparr>hw_states_velocity :=
                 resize (hw_states_velocity s) (length (joints (info s))) NaN\<rparr>;
         s = s\<lparr>hw_commands := resize (hw_commands s) (length (joints (info s))) NaN\<rparr>
     in
     and_then (stod_parameter stod ''wheel_diameter'' s) (\<lambda>(v, s).
     and_then (stod_parameter stod ''max_accel'' (s\<lparr>wheel_diameter := v\<rparr>)) (\<lambda>(v, s).
     and_then (stod_parameter stod ''max_speed'' (s\<lparr>max_accel := v\<rparr>)) (\<lambda>(v, s).
     and_then (stod_parameter stod ''polling_timeout'' (s\<lparr>max_speed := v\<rparr>)) (\<lambda>(v, s).
     case hardware_parameter ''serial_port'' (s\<lparr>polling_timeout := v\<rparr>) of
       (p, s) \<Rightarrow> Inr (s\<lparr>serial_port := p\<rparr>)))))))"

text \<open>Lines 164 to 166: the connection, the limits and the calibration.\<close>

definition configure_hardware :: "DataEncoders option \<Rightarrow> husky \<Rightarrow> husky" where
  "configure_hardware enc s =
     (let s = s\<lparr>drivetrain := drivetrain s @ [Connect (serial_port s)]\<rparr>;
          s = s\<lparr>drivetrain := drivetrain s @ [ConfigureLimits (max_speed s) (max_accel s)]\<rparr>
      in resetTravelOffset enc s)"

text \<open>Lines 168 to 216: the checks on one joint, in the order of the source; \<open>Some r\<close> is
  \<^verbatim>\<open>return r\<close>, \<open>None\<close> goes on to the next joint.\<close>

definition validate_joint :: "ComponentInfo \<Rightarrow> return_type option" where
  "validate_joint joint =
     (if length (command_interfaces joint) \<noteq> 1 then Some ERROR
      else if interface_name (command_interfaces joint ! 0) \<noteq> HW_IF_VELOCITY then Some ERROR
      else if length (state_interfaces joint) \<noteq> 2 then Some ERROR
      else if interface_name (state_interfaces joint ! 0) \<noteq> HW_IF_POSITION then Some ERROR
      else if interface_name (state_interfaces joint ! 1) \<noteq> HW_IF_VELOCITY then Some ERROR
      else None)"

fun validate_joints :: "ComponentInfo list \<Rightarrow> return_type option" where
  "validate_joints [] = None"
| "validate_joints (joint # js) =
     (case validate_joint joint of Some r \<Rightarrow> Some r | None \<Rightarrow> validate_joints js)"

text \<open>
  \<^verbatim>\<open>configure_default\<close> is a member function of the ros2\_control base class and is not
  part of this source: it is the parameter \<open>configure_default\<close>, which returns its result
  and the object as it leaves it.
\<close>

definition configure ::
  "(string \<Rightarrow> double option) \<Rightarrow> (HardwareInfo \<Rightarrow> husky \<Rightarrow> return_type \<times> husky) \<Rightarrow>
   DataEncoders option \<Rightarrow> HardwareInfo \<Rightarrow> husky \<Rightarrow> (exn \<times> husky) + (return_type \<times> husky)" where
  "configure stod configure_default enc hi s =
     (case configure_default hi s of
        (rt, s) \<Rightarrow>
          if rt \<noteq> OK then Inr (ERROR, s)
          else and_then (configure_parameters stod s) (\<lambda>s.
            let s = configure_hardware enc s
            in case validate_joints (joints (info s)) of
                 Some r \<Rightarrow> Inr (r, s)
               | None \<Rightarrow> Inr (OK, s\<lparr>status := CONFIGURED\<rparr>)))"

text \<open>
  Modelled from the spec: the library's \<^verbatim>\<open>configure_default\<close>, used where the model is
  run on an example.  It stores the descriptor, leaves the lifecycle state Unconfigured
  and returns \<open>OK\<close>.
\<close>

definition store_info :: "HardwareInfo \<Rightarrow> husky \<Rightarrow> return_type \<times> husky" where
  "store_info hi s = (OK, s\<lparr>info := hi, status := UNCONFIGURED\<rparr>)"

text \<open>The shape of a joint that the spec asks for: one command interface, for velocity,
  and two state interfaces, position then velocity.\<close>

definition joint_shape_valid :: "ComponentInfo \<Rightarrow> bool" where
  "joint_shape_valid joint \<longleftrightarrow>
     length (command_interfaces joint) = 1 \<and>
     interface_name (command_interfaces joint ! 0) = HW_IF_VELOCITY \<and>
     length (state_interfaces joint) = 2 \<and>
     map interface_name (state_interfaces joint) = [HW_IF_POSITION, HW_IF_VELOCITY]"


subsection \<open>An example configuration\<close>

text \<open>
  The inputs on which the model is run below: a two-wheel base with a wheel diameter of
  0.3302 m, the strings of its parameters with the values that \<^verbatim>\<open>std::stod\<close> gives on
  them, and the object before \<^verbatim>\<open>configure\<close>: its vectors are empty; its numbers, which
  the constructor leaves uninitialised and \<^verbatim>\<open>configure\<close> assigns, are zero here.
\<close>

definition wheel_joint :: "string \<Rightarrow> ComponentInfo" where
  "wheel_joint n =
     \<lparr>component_name = n,
      command_interfaces = [\<lparr>interface_name = ''velocity''\<rparr>],
      state_interfaces = [\<lparr>interface_name = ''position''\<rparr>, \<lparr>interface_name = ''velocity''\<rparr>]\<rparr>"

definition example_parameters :: "string \<rightharpoonup> string" where
  "example_parameters =
     map_of [(''hw_start_duration_sec'', ''2.0''), (''hw_stop_duration_sec'', ''3.0''),
             (''wheel_diameter'', ''0.3302''), (''max_accel'', ''5.0''),
             (''max_speed'', ''1.0''), (''polling_timeout'', ''10.0''),
             (''serial_port'', ''/dev/prolific'')]"

definition example_info :: HardwareInfo where
  "example_info =
     \<lparr>hardware_name = ''husky'',
      joints = [wheel_joint ''left_wheel'', wheel_joint ''right_wheel''],
      hardware_parameters = example_parameters\<rparr>"


definition example_stod :: "string \<Rightarrow> double option" where
  "example_stod =
     map_of [(''2.0'', Fin 2), (''3.0'', Fin 3), (''0.3302'', Fin (3302 / 10000)),
             (''5.0'', Fin 5), (''1.0'', Fin 1), (''10.0'', Fin 10)]"

definition constructed :: husky where
  "constructed =
     \<lparr>info = \<lparr>hardware_name = [], joints = [], hardware_parameters = Map.empty\<rparr>,
      status = UNCONFIGURED,
      hw_start_sec = Fin 0, hw_stop_sec = Fin 0,
      hw_states_position = [], hw_states_position_offset = [],
      hw_states_velocity = [], hw_commands = [],
      wheel_diameter = Fin 0, max_accel = Fin 0, max_speed = Fin 0, polling_timeout = Fin 0,
      serial_port = [], drivetrain = []\<rparr>"

text \<open>An encoder sample of 1.0 m on each wheel, one of 0.1 m on the left and 1.0 m on the
  right wheel, and a speed sample.\<close>

definition travel_1m :: DataEncoders where
  "travel_1m = \<lparr>travel_left = Fin 1, travel_right = Fin 1\<rparr>"

definition travel_short_left :: DataEncoders where
  "travel_short_left = \<lparr>travel_left = Fin (1 / 10), travel_right = Fin 1\<rparr>"


text \<open>The base at rest after \<^verbatim>\<open>start\<close>: two joints, every entry zero.\<close>

definition at_rest :: husky where
  "at_rest =
     constructed
       \<lparr>info := example_info, status := STARTED,
        hw_states_position := [Fin 0, Fin 0], hw_states_position_offset := [Fin 0, Fin 0],
        hw_states_velocity := [Fin 0, Fin 0], hw_commands := [Fin 0, Fin 0],
        wheel_diameter := Fin (3302 / 10000), max_accel := Fin 5, max_speed := Fin 1,
        polling_timeout := Fin 10\<rparr>"

subsection \<open>Auxiliary predicates\<close>

text \<open>What the seeding loop of \<^verbatim>\<open>start\<close> has done to joint \<open>i\<close>, from the object \<open>s\<close> before
  the loop to the object \<open>t\<close> after it; a joint that a loop has not reached; an object
  that differs from another in the stored parameters only.\<close>

definition seeded :: "husky \<Rightarrow> husky \<Rightarrow> nat \<Rightarrow> bool" where
  "seeded s t i \<longleftrightarrow>
     (if isnan (hw_states_position s ! i)
      then hw_states_position t ! i = Fin 0 \<and> hw_states_position_offset t ! i = Fin 0 \<and>
           hw_states_velocity t ! i = Fin 0 \<and> hw_commands t ! i = Fin 0
      else hw_states_position t ! i = hw_states_position s ! i \<and>
           hw_states_position_offset t ! i = hw_states_position_offset s ! i \<and>
           hw_states_velocity t ! i = hw_states_velocity s ! i \<and>
           hw_commands t ! i = hw_commands s ! i)"

definition untouched :: "husky \<Rightarrow> husky \<Rightarrow> nat \<Rightarrow> bool" where
  "untouched s t i \<longleftrightarrow>
     hw_states_position t ! i = hw_states_position s ! i \<and>
     hw_states_position_offset t ! i = hw_states_position_offset s ! i \<and>
     hw_states_velocity t ! i = hw_states_velocity s ! i \<and>
     hw_commands t ! i = hw_commands s ! i"

definition same_but_info :: "husky \<Rightarrow> husky \<Rightarrow> bool" where
  "same_but_info s s' \<longleftrightarrow>
     status s' = status s \<and> joints (info s') = joints (info s) \<and>
     drivetrain s' = drivetrain s \<and>
     hw_states_position s' = hw_states_position s \<and>
     hw_states_position_offset s' = hw_states_position_offset s \<and>
     hw_states_velocity s' = hw_states_velocity s \<and>
     hw_commands s' = hw_commands s"

section \<open>Properties\<close>

subsection \<open>Comparisons\<close>

lemma dle_not_dlt: "dle a b \<Longrightarrow> \<not> dlt b a"
  by (cases a; cases b) auto


subsection \<open>Iteration over the joints\<close>


lemma fold_unchanged: "(\<And>i s. g (f i s) = g s) \<Longrightarrow> g (fold f xs s) = g s"
  by (induction xs arbitrary: s) simp_all

text \<open>One round of the encoder loop touches joint \<open>i\<close> only, and reads joint \<open>i\<close> only.\<close>

lemma travel_step_frame [simp]:
  "wheel_diameter (travel_step e i s) = wheel_diameter s"
  "length (hw_states_position (travel_step e i s)) = length (hw_states_position s)"
  "length (hw_states_position_offset (travel_step e i s)) = length (hw_states_position_offset s)"
  "hw_states_velocity (travel_step e i s) = hw_states_velocity s"
  "hw_commands (travel_step e i s) = hw_commands s"
  "drivetrain (travel_step e i s) = drivetrain s"
  "status (travel_step e i s) = status s"
  by (simp_all add: travel_step_def Let_def)

lemma travel_step_other:
  "j \<noteq> i \<Longrightarrow> hw_states_position (travel_step e i s) ! j = hw_states_position s ! j"
  "j \<noteq> i \<Longrightarrow> hw_states_position_offset (travel_step e i s) ! j = hw_states_position_offset s ! j"
  by (simp_all add: travel_step_def Let_def)

lemma travel_delta_cong:
  "wheel_diameter t = wheel_diameter s \<Longrightarrow>
   hw_states_position t ! i = hw_states_position s ! i \<Longrightarrow>
   hw_states_position_offset t ! i = hw_states_position_offset s ! i \<Longrightarrow>
   travel_delta e i t = travel_delta e i s"
  by (simp add: travel_delta_def linearToAngular_def)

lemma travel_step_same:
  assumes "wheel_diameter t = wheel_diameter s"
    and "hw_states_position t ! i = hw_states_position s ! i"
    and "hw_states_position_offset t ! i = hw_states_position_offset s ! i"
    and "i < length (hw_states_position t)" "i < length (hw_states_position s)"
    and "i < length (hw_states_position_offset t)" "i < length (hw_states_position_offset s)"
  shows "hw_states_position (travel_step e i t) ! i = hw_states_position (travel_step e i s) ! i"
    and "hw_states_position_offset (travel_step e i t) ! i =
         hw_states_position_offset (travel_step e i s) ! i"
  using assms travel_delta_cong [OF assms(1-3), of e]
  by (simp_all add: travel_step_def Let_def)

lemma fold_travel_step:
  assumes "n \<le> length (hw_states_position s)"
    and "length (hw_states_position_offset s) = length (hw_states_position s)"
  shows "wheel_diameter (fold (travel_step e) [0..<n] s) = wheel_diameter s \<and>
     length (hw_states_position (fold (travel_step e) [0..<n] s)) = length (hw_states_position s) \<and>
     length (hw_states_position_offset (fold (travel_step e) [0..<n] s)) =
       length (hw_states_position_offset s) \<and>
     (\<forall>i<n. hw_states_position (fold (travel_step e) [0..<n] s) ! i =
               hw_states_position (travel_step e i s) ! i \<and>
            hw_states_position_offset (fold (travel_step e) [0..<n] s) ! i =
               hw_states_position_offset (travel_step e i s) ! i) \<and>
     (\<forall>i\<ge>n. hw_states_position (fold (travel_step e) [0..<n] s) ! i = hw_states_position s ! i \<and>
            hw_states_position_offset (fold (travel_step e) [0..<n] s) ! i =
               hw_states_position_offset s ! i)"
  using assms
proof (induction n)
  case 0
  then show ?case by simp
next
  case (Suc n)
  let ?t = "fold (travel_step e) [0..<n] s"
  have ih: "wheel_diameter ?t = wheel_diameter s"
    "length (hw_states_position ?t) = length (hw_states_position s)"
    "length (hw_states_position_offset ?t) = length (hw_states_position_offset s)"
    "\<And>i. i < n \<Longrightarrow> hw_states_position ?t ! i = hw_states_position (travel_step e i s) ! i"
    "\<And>i. i < n \<Longrightarrow>
       hw_states_position_offset ?t ! i = hw_states_position_offset (travel_step e i s) ! i"
    "\<And>i. n \<le> i \<Longrightarrow> hw_states_position ?t ! i = hw_states_position s ! i"
    "\<And>i. n \<le> i \<Longrightarrow> hw_states_position_offset ?t ! i = hw_states_position_offset s ! i"
    using Suc by simp_all
  have unfold: "fold (travel_step e) [0..<Suc n] s = travel_step e n ?t"
    by simp
  have n: "n < length (hw_states_position s)"
    using Suc.prems by simp
  have same:
    "hw_states_position (travel_step e n ?t) ! n = hw_states_position (travel_step e n s) ! n"
    "hw_states_position_offset (travel_step e n ?t) ! n =
       hw_states_position_offset (travel_step e n s) ! n"
    using travel_step_same [of ?t s n e] ih n Suc.prems by simp_all
  show ?case
    unfolding unfold
  proof (intro conjI allI impI)
    fix i assume "i < Suc n"
    then consider "i < n" | "i = n" by linarith
    then show "hw_states_position (travel_step e n ?t) ! i =
        hw_states_position (travel_step e i s) ! i"
      using ih same by cases (simp_all add: travel_step_other)
  next
    fix i assume "i < Suc n"
    then consider "i < n" | "i = n" by linarith
    then show "hw_states_position_offset (travel_step e n ?t) ! i =
        hw_states_position_offset (travel_step e i s) ! i"
      using ih same by cases (simp_all add: travel_step_other)
  qed (simp_all add: ih travel_step_other)
qed

lemma speed_step_frame [simp]:
  "hw_states_position (speed_step sp i s) = hw_states_position s"
  "hw_states_position_offset (speed_step sp i s) = hw_states_position_offset s"
  "hw_commands (speed_step sp i s) = hw_commands s"
  "drivetrain (speed_step sp i s) = drivetrain s"
  "status (speed_step sp i s) = status s"
  by (simp_all add: speed_step_def)

text \<open>The encoder loop as a whole: joint \<open>i\<close> ends as one round on the state before the
  loop leaves it; the speed loop after it changes neither position nor offset.\<close>

lemma updateJointsFromHardware_joint:
  assumes "i < length (hw_states_position s)"
    and "length (hw_states_position_offset s) = length (hw_states_position s)"
  shows "hw_states_position (updateJointsFromHardware (Some e) speed s) ! i =
           hw_states_position (travel_step e i s) ! i"
    and "hw_states_position_offset (updateJointsFromHardware (Some e) speed s) ! i =
           hw_states_position_offset (travel_step e i s) ! i"
proof -
  let ?t = "fold (travel_step e) [0..<length (hw_states_position s)] s"
  have t: "hw_states_position ?t ! i = hw_states_position (travel_step e i s) ! i"
    "hw_states_position_offset ?t ! i = hw_states_position_offset (travel_step e i s) ! i"
    using fold_travel_step [of "length (hw_states_position s)" s e] assms by simp_all
  have "hw_states_position (updateJointsFromHardware (Some e) speed s) = hw_states_position ?t"
    by (cases speed) (simp_all add: updateJointsFromHardware_def fold_unchanged)
  moreover have "hw_states_position_offset (updateJointsFromHardware (Some e) speed s) =
      hw_states_position_offset ?t"
    by (cases speed) (simp_all add: updateJointsFromHardware_def fold_unchanged)
  ultimately show
    "hw_states_position (updateJointsFromHardware (Some e) speed s) ! i =
       hw_states_position (travel_step e i s) ! i"
    "hw_states_position_offset (updateJointsFromHardware (Some e) speed s) ! i =
       hw_states_position_offset (travel_step e i s) ! i"
    using t by simp_all
qed

text \<open>The calibration loop writes the offsets, and nothing else.\<close>

lemma fold_resetTravelOffset_step:
  assumes "n \<le> length (hw_states_position_offset s)"
  shows "\<exists>xs. fold (resetTravelOffset_step e) [0..<n] s = s\<lparr>hw_states_position_offset := xs\<rparr> \<and>
     length xs = length (hw_states_position_offset s) \<and>
     (\<forall>i<n. xs ! i = linearToAngular s (getTravel e (i mod 2))) \<and>
     (\<forall>i\<ge>n. xs ! i = hw_states_position_offset s ! i)"
  using assms
proof (induction n)
  case 0
  show ?case
    by (rule exI [of _ "hw_states_position_offset s"]) simp
next
  case (Suc n)
  then obtain xs where xs:
    "fold (resetTravelOffset_step e) [0..<n] s = s\<lparr>hw_states_position_offset := xs\<rparr>"
    "length xs = length (hw_states_position_offset s)"
    "\<And>i. i < n \<Longrightarrow> xs ! i = linearToAngular s (getTravel e (i mod 2))"
    "\<And>i. n \<le> i \<Longrightarrow> xs ! i = hw_states_position_offset s ! i"
    by auto
  let ?ys = "xs[n := linearToAngular s (getTravel e (n mod 2))]"
  have "fold (resetTravelOffset_step e) [0..<Suc n] s = s\<lparr>hw_states_position_offset := ?ys\<rparr>"
    by (simp add: xs(1) resetTravelOffset_step_def linearToAngular_def)
  moreover have "length ?ys = length (hw_states_position_offset s)"
    by (simp add: xs(2))
  moreover have "\<forall>i<Suc n. ?ys ! i = linearToAngular s (getTravel e (i mod 2))"
    using Suc.prems xs(2) by (auto simp: nth_list_update less_Suc_eq xs(3))
  moreover have "\<forall>i\<ge>Suc n. ?ys ! i = hw_states_position_offset s ! i"
    by (simp add: xs(4))
  ultimately show ?case by blast
qed

lemma resetTravelOffset_Some:
  "\<exists>xs. resetTravelOffset (Some e) s = s\<lparr>hw_states_position_offset := xs\<rparr> \<and>
     length xs = length (hw_states_position_offset s) \<and>
     (\<forall>i<length (hw_states_position_offset s). xs ! i = linearToAngular s (getTravel e (i mod 2)))"
  using fold_resetTravelOffset_step [of "length (hw_states_position_offset s)" s e]
  by (auto simp: resetTravelOffset_def)

lemma resetTravelOffset_frame:
  "\<exists>xs. resetTravelOffset enc s = s\<lparr>hw_states_position_offset := xs\<rparr> \<and>
     length xs = length (hw_states_position_offset s)"
proof (cases enc)
  case None
  show ?thesis
    by (rule exI [of _ "hw_states_position_offset s"]) (simp add: None resetTravelOffset_def)
next
  case (Some e)
  then show ?thesis
    using resetTravelOffset_Some [of e s] by auto
qed

text \<open>The seeding loop of \<^verbatim>\<open>start\<close>: joint \<open>i\<close> is reset when its position is NaN, and
  only then.\<close>

lemma start_step_frame [simp]:
  "info (start_step i s) = info s"
  "status (start_step i s) = status s"
  "drivetrain (start_step i s) = drivetrain s"
  "wheel_diameter (start_step i s) = wheel_diameter s"
  "length (hw_states_position (start_step i s)) = length (hw_states_position s)"
  "length (hw_states_position_offset (start_step i s)) = length (hw_states_position_offset s)"
  "length (hw_states_velocity (start_step i s)) = length (hw_states_velocity s)"
  "length (hw_commands (start_step i s)) = length (hw_commands s)"
  by (simp_all add: start_step_def)

lemma fold_start_step:
  assumes "n \<le> length (hw_states_position s)" and "sizes_agree s"
  shows "sizes_agree (fold start_step [0..<n] s) \<and>
     length (hw_states_position (fold start_step [0..<n] s)) = length (hw_states_position s) \<and>
     (\<forall>i<n. seeded s (fold start_step [0..<n] s) i) \<and>
     (\<forall>i\<ge>n. untouched s (fold start_step [0..<n] s) i)"
  using assms
proof (induction n)
  case 0
  then show ?case by (simp add: untouched_def)
next
  case (Suc n)
  let ?t = "fold start_step [0..<n] s"
  have ih: "sizes_agree ?t" "length (hw_states_position ?t) = length (hw_states_position s)"
    "\<And>i. i < n \<Longrightarrow> seeded s ?t i" "\<And>i. n \<le> i \<Longrightarrow> untouched s ?t i"
    using Suc by simp_all
  have unfold: "fold start_step [0..<Suc n] s = start_step n ?t"
    by simp
  have n: "n < length (hw_states_position ?t)" "n < length (hw_states_position_offset ?t)"
    "n < length (hw_states_velocity ?t)" "n < length (hw_commands ?t)"
    using Suc.prems ih(1,2) by (simp_all add: sizes_agree_def)
  have at_n: "seeded s (start_step n ?t) n"
    using ih(4) [of n] n by (simp add: seeded_def untouched_def start_step_def)
  have below: "seeded s (start_step n ?t) i" if "i < n" for i
    using ih(3) [OF that] that by (simp add: seeded_def start_step_def)
  have above: "untouched s (start_step n ?t) i" if "Suc n \<le> i" for i
    using ih(4) [of i] that by (simp add: untouched_def start_step_def)
  have "sizes_agree (start_step n ?t)"
    using ih(1) by (simp add: sizes_agree_def)
  moreover have "\<forall>i<Suc n. seeded s (start_step n ?t) i"
    using at_n below by (auto simp: less_Suc_eq)
  ultimately show ?case
    unfolding unfold using above ih(2) by simp
qed





subsection \<open>The stages of configure\<close>

lemma and_then_InrD: "and_then m f = Inr b \<Longrightarrow> \<exists>a. m = Inr a \<and> f a = Inr b"
  by (cases m) (simp_all add: and_then_def)


lemma hardware_parameter_frame:
  "hardware_parameter k s = (v, s') \<Longrightarrow> same_but_info s s'"
  by (auto simp: hardware_parameter_def same_but_info_def split: option.splits)

lemma stod_parameter_Inr:
  "stod_parameter stod k s = Inr (v, s') \<Longrightarrow> same_but_info s s'"
  by (auto simp: stod_parameter_def split: option.splits prod.splits
      dest: hardware_parameter_frame)


lemma configure_parameters_Inr:
  assumes "configure_parameters stod s = Inr s'"
  shows "status s' = status s \<and> joints (info s') = joints (info s) \<and>
    drivetrain s' = drivetrain s \<and>
    hw_states_position s' = resize (hw_states_position s) (length (joints (info s))) NaN \<and>
    hw_states_position_offset s' =
      resize (hw_states_position_offset s) (length (joints (info s))) NaN \<and>
    hw_states_velocity s' = resize (hw_states_velocity s) (length (joints (info s))) NaN \<and>
    hw_commands s' = resize (hw_commands s) (length (joints (info s))) NaN"
  using assms unfolding configure_parameters_def
  by (auto simp: Let_def same_but_info_def split: prod.splits
      dest!: and_then_InrD stod_parameter_Inr hardware_parameter_frame)


lemma configure_hardware_frame:
  "status (configure_hardware enc s) = status s"
  "info (configure_hardware enc s) = info s"
  "hw_states_position (configure_hardware enc s) = hw_states_position s"
  "hw_states_velocity (configure_hardware enc s) = hw_states_velocity s"
  "hw_commands (configure_hardware enc s) = hw_commands s"
  "length (hw_states_position_offset (configure_hardware enc s)) =
     length (hw_states_position_offset s)"
proof -
  let ?s = "s\<lparr>drivetrain := drivetrain s @ [Connect (serial_port s)],
              drivetrain := (drivetrain s @ [Connect (serial_port s)]) @
                [ConfigureLimits (max_speed s) (max_accel s)]\<rparr>"
  have unfold: "configure_hardware enc s = resetTravelOffset enc ?s"
    by (simp add: configure_hardware_def Let_def)
  obtain xs where xs: "resetTravelOffset enc ?s = ?s\<lparr>hw_states_position_offset := xs\<rparr>"
    "length xs = length (hw_states_position_offset ?s)"
    using resetTravelOffset_frame [of enc ?s] by blast
  show "status (configure_hardware enc s) = status s"
    "info (configure_hardware enc s) = info s"
    "hw_states_position (configure_hardware enc s) = hw_states_position s"
    "hw_states_velocity (configure_hardware enc s) = hw_states_velocity s"
    "hw_commands (configure_hardware enc s) = hw_commands s"
    "length (hw_states_position_offset (configure_hardware enc s)) =
       length (hw_states_position_offset s)"
    unfolding unfold xs(1) using xs(2) by simp_all
qed

text \<open>The checks of the source accept a joint exactly when it has the shape the spec asks
  for, and the loop returns \<open>ERROR\<close> at the first joint that has not.\<close>

lemma validate_joint_shape: "validate_joint joint = None \<longleftrightarrow> joint_shape_valid joint"
proof -
  have "map interface_name xs = [p, v] \<longleftrightarrow>
      length xs = 2 \<and> interface_name (xs ! 0) = p \<and> interface_name (xs ! 1) = v"
    for xs :: "InterfaceInfo list" and p v
    by (cases xs; cases "tl xs"; cases "tl (tl xs)") auto
  then show ?thesis
    by (auto simp: validate_joint_def joint_shape_valid_def)
qed

lemma validate_joint_result: "validate_joint joint = Some r \<Longrightarrow> r = ERROR"
  by (auto simp: validate_joint_def split: if_splits)

lemma validate_joints_result: "validate_joints js = Some r \<Longrightarrow> r = ERROR"
  by (induction js) (auto split: option.splits dest: validate_joint_result)


lemma validate_joints_valid:
  "(\<forall>joint \<in> set js. joint_shape_valid joint) \<Longrightarrow> validate_joints js = None"
  by (induction js) (simp_all add: validate_joint_shape [symmetric])

subsection \<open>The sizes of the vectors\<close>

text \<open>\<^verbatim>\<open>configure\<close> makes the four vectors as long as the list of joints, whatever they were
  before; \<^verbatim>\<open>read\<close> and \<^verbatim>\<open>start\<close> keep the lengths.\<close>

lemma length_resize [simp]: "length (resize xs n v) = n"
  by (simp add: resize_def)

lemma configure_sizes_agree:
  assumes "configure_default hi s = (OK, s0)"
    and "configure stod configure_default enc hi s = Inr (rt, s')"
  shows "sizes_agree s' \<and> length (hw_states_position s') = length (joints (info s'))"
proof -
  obtain s1 where s1: "configure_parameters stod s0 = Inr s1"
    using assms by (cases "configure_parameters stod s0") (simp_all add: configure_def and_then_def)
  let ?s2 = "configure_hardware enc s1"
  have "s' = ?s2 \<or> s' = ?s2\<lparr>status := CONFIGURED\<rparr>"
    using assms s1 by (auto simp: configure_def and_then_def Let_def split: option.splits)
  then show ?thesis
    using configure_parameters_Inr [OF s1]
    by (auto simp: sizes_agree_def configure_hardware_frame)
qed

lemma updateJointsFromHardware_sizes_agree:
  "sizes_agree s \<Longrightarrow> sizes_agree (updateJointsFromHardware enc speed s)"
proof -
  have speed_length: "length (hw_states_velocity (speed_step sp i t)) = length (hw_states_velocity t)"
    for sp i t
    by (simp add: speed_step_def)
  have travel: "length (hw_states_position (fold (travel_step e) xs t)) = length (hw_states_position t)"
    "length (hw_states_position_offset (fold (travel_step e) xs t)) =
       length (hw_states_position_offset t)"
    "hw_states_velocity (fold (travel_step e) xs t) = hw_states_velocity t"
    "hw_commands (fold (travel_step e) xs t) = hw_commands t" for e xs t
    by (induction xs arbitrary: t) simp_all
  have speed: "hw_states_position (fold (speed_step sp) xs t) = hw_states_position t"
    "hw_states_position_offset (fold (speed_step sp) xs t) = hw_states_position_offset t"
    "length (hw_states_velocity (fold (speed_step sp) xs t)) = length (hw_states_velocity t)"
    "hw_commands (fold (speed_step sp) xs t) = hw_commands t" for sp xs t
    by (induction xs arbitrary: t) (simp_all add: speed_length)
  assume "sizes_agree s"
  then show ?thesis
    by (cases enc; cases speed)
      (simp_all add: updateJointsFromHardware_def Let_def sizes_agree_def travel speed)
qed

lemma start_sizes_agree:
  "sizes_agree s \<Longrightarrow> start s = Some (rt, s') \<Longrightarrow> sizes_agree s'"
  using fold_start_step [of "length (hw_states_position s)" s]
  by (auto simp: start_def sizes_agree_def split: option.splits)

subsection \<open>The conversions and the speed limit in exact arithmetic\<close>

text \<open>
  On finite values computed exactly the two conversions are inverse to each other, and
  the speed limit scales the larger magnitude to the maximum and keeps the ratio and the
  signs.  On doubles each division and multiplication is rounded and may overflow, so
  these equalities are statements about real numbers only.
\<close>

lemma angularToLinear_linearToAngular_exact:
  "wheel_diameter s = Fin d \<Longrightarrow> d \<noteq> 0 \<Longrightarrow>
   angularToLinear s (linearToAngular s (Fin x)) = Fin x"
  by (simp add: angularToLinear_def linearToAngular_def)

lemma limitDifferentialSpeed_exact:
  assumes "max_speed s = Fin m" and "0 < m"
  shows "limitDifferentialSpeed s (Fin l, Fin r) =
     (if max (abs l) (abs r) \<le> m then (Fin l, Fin r)
      else (Fin (l * (m / max (abs l) (abs r))), Fin (r * (m / max (abs l) (abs r)))))"
proof -
  have "dmax (Fin (abs l)) (Fin (abs r)) = Fin (max (abs l) (abs r))"
    by (simp add: dmax_def max_def)
  then show ?thesis
    using assms by (auto simp: limitDifferentialSpeed_def dgt_def Let_def)
qed

lemma limitDifferentialSpeed_exact_scaled:
  fixes l r m :: real
  assumes "0 < m" and "m < max (abs l) (abs r)"
  defines "k \<equiv> m / max (abs l) (abs r)"
  shows "max (abs (l * k)) (abs (r * k)) = m" and "r \<noteq> 0 \<Longrightarrow> (l * k) / (r * k) = l / r"
    and "sgn (l * k) = sgn l" and "sgn (r * k) = sgn r"
proof -
  have k: "0 < k"
    using assms by simp
  have "max (abs (l * k)) (abs (r * k)) = max (abs l) (abs r) * k"
    using k by (simp add: abs_mult max_mult_distrib_right)
  also have "\<dots> = m"
    using assms by simp
  finally show "max (abs (l * k)) (abs (r * k)) = m" .
  show "r \<noteq> 0 \<Longrightarrow> (l * k) / (r * k) = l / r"
    using k by simp
  show "sgn (l * k) = sgn l" "sgn (r * k) = sgn r"
    using k by (simp_all add: sgn_mult)
qed

subsection \<open>The encoder update\<close>

text \<open>
  Claim C1.  On a read cycle with an encoder sample, for every joint \<open>i\<close> the update computes
  \<open>delta = linearToAngular(travel[i mod 2]) - position[i] - positionOffset[i]\<close>.  When
  \<open>|delta| < 1.0\<close> the new position is the old position plus \<open>delta\<close> and the offset is
  unchanged; when \<open>|delta| \<ge> 1.0\<close> the position is unchanged and the new offset is the old
  offset plus \<open>delta\<close>.
\<close>

theorem updateJointsFromHardware_travel:
  assumes "i < length (hw_states_position s)"
    and "length (hw_states_position_offset s) = length (hw_states_position s)"
  shows "let delta = dsub (dsub (linearToAngular s (getTravel enc (i mod 2)))
                             (hw_states_position s ! i))
                       (hw_states_position_offset s ! i);
             s' = updateJointsFromHardware (Some enc) speed s
         in (dlt (dabs delta) (Fin 1) \<longrightarrow>
               hw_states_position s' ! i = dadd (hw_states_position s ! i) delta \<and>
               hw_states_position_offset s' ! i = hw_states_position_offset s ! i) \<and>
            (dge (dabs delta) (Fin 1) \<longrightarrow>
               hw_states_position s' ! i = hw_states_position s ! i \<and>
               hw_states_position_offset s' ! i = dadd (hw_states_position_offset s ! i) delta)"
proof -
  have "\<not> dlt (dabs (travel_delta enc i s)) (Fin 1)" if "dge (dabs (travel_delta enc i s)) (Fin 1)"
    using that by (simp add: dge_def dle_not_dlt)
  then show ?thesis
    using assms updateJointsFromHardware_joint [OF assms, of enc speed]
    by (auto simp: Let_def travel_step_def travel_delta_def)
qed

theorem updateJointsFromHardware_travel_witness:
  "hw_states_position (updateJointsFromHardware (Some travel_short_left) None at_rest) ! 0 =
     Fin (1000 / 1651) \<and>
   hw_states_position_offset (updateJointsFromHardware (Some travel_short_left) None at_rest) ! 0 =
     Fin 0 \<and>
   hw_states_position (updateJointsFromHardware (Some travel_short_left) None at_rest) ! 1 =
     Fin 0 \<and>
   hw_states_position_offset (updateJointsFromHardware (Some travel_short_left) None at_rest) ! 1 =
     Fin (10000 / 1651)"
  using updateJointsFromHardware_travel [of 0 at_rest travel_short_left None]
    updateJointsFromHardware_travel [of 1 at_rest travel_short_left None]
  by (simp add: at_rest_def constructed_def travel_short_left_def linearToAngular_def
      getTravel_def LEFT_def dsub_def dge_def Let_def)



subsection \<open>read and write\<close>

text \<open>
  Claim C7.  A read cycle in which neither a travel sample nor a speed sample is available
  returns success and leaves the object, and so every joint position, position offset and
  velocity, as it was.
\<close>

theorem read_without_samples: "read None None s = (OK, s)"
  by (simp add: read_def updateJointsFromHardware_def)



subsection \<open>start\<close>

text \<open>The warm-up loop ends for every duration below \<open>2\<^sup>3\<^sup>1 - 1\<close> seconds, and for NaN.\<close>

lemma start_wait_returns:
  "d < 2147483647 \<Longrightarrow> \<exists>k. start_wait i (Fin d) = Some k"
proof (induction i "Fin d" rule: start_wait.induct)
  case (1 i)
  show ?case
  proof (cases "dle (Fin (of_int i)) (Fin d)")
    case True
    then have "\<not> 2147483647 \<le> i"
      using "1.prems" by simp
    then show ?thesis
      using True "1.hyps" "1.prems" by (subst start_wait.simps) auto
  next
    case False
    then show ?thesis
      by (subst start_wait.simps) simp
  qed
qed

lemma start_returns:
  "hw_start_sec s = Fin d \<Longrightarrow> d < 2147483647 \<Longrightarrow>
   start s = Some (OK, (fold start_step [0..<length (hw_states_position s)] s)\<lparr>status := STARTED\<rparr>)"
  using start_wait_returns [of d 0] by (auto simp: start_def)

lemma start_Some:
  assumes "start s = Some (rt, s')" and "sizes_agree s"
  shows "rt = OK \<and> status s' = STARTED \<and>
     length (hw_states_position s') = length (hw_states_position s) \<and>
     (\<forall>i<length (hw_states_position s). seeded s s' i)"
proof -
  let ?t = "fold start_step [0..<length (hw_states_position s)] s"
  have s': "rt = OK" "s' = ?t\<lparr>status := STARTED\<rparr>"
    using assms(1) by (auto simp: start_def split: option.splits)
  have "seeded s (?t\<lparr>status := STARTED\<rparr>) i = seeded s ?t i" for i
    by (simp add: seeded_def)
  then show ?thesis
    using fold_start_step [of "length (hw_states_position s)" s] assms(2) s' by simp
qed

text \<open>
  Claim C5 says that \<^verbatim>\<open>start\<close> zeroes the entries that are NaN and no others, so that an
  offset set by the calibration survives.  The source tests the position of a joint only
  and then zeroes all four entries of the joint.  On the example base, \<^verbatim>\<open>configure\<close>
  with a travel of 1.0 m on each wheel leaves the offsets at \<open>2 / 0.3302\<close> and the
  positions at NaN, and \<^verbatim>\<open>start\<close> then sets the offsets to zero.
\<close>

theorem start_resets_calibrated_offset:
  "case configure example_stod store_info (Some travel_1m) example_info constructed of
     Inl _ \<Rightarrow> False
   | Inr (rt, s) \<Rightarrow>
       rt = OK \<and>
       hw_states_position s = [NaN, NaN] \<and>
       hw_states_position_offset s = [Fin (10000 / 1651), Fin (10000 / 1651)] \<and>
       (case start s of
          None \<Rightarrow> False
        | Some (rt', s') \<Rightarrow>
            rt' = OK \<and> status s' = STARTED \<and>
            hw_states_position s' = [Fin 0, Fin 0] \<and>
            hw_states_position_offset s' = [Fin 0, Fin 0])"
  by (simp add: example_info_def example_parameters_def example_stod_def constructed_def
      wheel_joint_def store_info_def travel_1m_def
      configure_def configure_parameters_def and_then_def stod_parameter_def
      hardware_parameter_def resize_def configure_hardware_def resetTravelOffset_def
      resetTravelOffset_step_def linearToAngular_def getTravel_def LEFT_def
      validate_joint_def HW_IF_VELOCITY_def HW_IF_POSITION_def
      start_def start_step_def start_wait.simps)

subsection \<open>configure\<close>

text \<open>
  Claim C3 says that \<^verbatim>\<open>configure\<close> fails when the first read of the encoders fails.  The
  source logs the failure as fatal in \<^verbatim>\<open>resetTravelOffset\<close>, which returns nothing, and
  goes on: on the example base without encoder data \<^verbatim>\<open>configure\<close> returns \<open>OK\<close>, the
  lifecycle state is Configured and the offsets are NaN.
\<close>

theorem configure_without_encoder_data:
  "case configure example_stod store_info None example_info constructed of
     Inl _ \<Rightarrow> False
   | Inr (rt, s) \<Rightarrow>
       rt = OK \<and> status s = CONFIGURED \<and> hw_states_position_offset s = [NaN, NaN]"
  by (simp add: example_info_def example_parameters_def example_stod_def constructed_def
      wheel_joint_def store_info_def
      configure_def configure_parameters_def and_then_def stod_parameter_def
      hardware_parameter_def resize_def configure_hardware_def resetTravelOffset_def
      validate_joint_def HW_IF_VELOCITY_def HW_IF_POSITION_def)



text \<open>
  Claim C10.  The calibration writes the offsets only: position, velocity and command of
  every joint are as before.  \<^verbatim>\<open>configure\<close> on a newly constructed object (its vectors
  empty) therefore leaves them at the NaN of the resize, one entry per joint, and a
  \<^verbatim>\<open>start\<close> that follows sets them to zero.
\<close>

theorem resetTravelOffset_writes_offset_only:
  assumes "configure_default hi s = (OK, s0)"
    and "hw_states_position s0 = []" and "hw_states_velocity s0 = []"
    and "hw_commands s0 = []"
    and "configure stod configure_default enc hi s = Inr (OK, s')"
  shows "hw_states_position (resetTravelOffset e t) = hw_states_position t \<and>
     hw_states_velocity (resetTravelOffset e t) = hw_states_velocity t \<and>
     hw_commands (resetTravelOffset e t) = hw_commands t \<and>
     hw_states_position s' = replicate (length (joints (info s'))) NaN \<and>
     hw_states_velocity s' = replicate (length (joints (info s'))) NaN \<and>
     hw_commands s' = replicate (length (joints (info s'))) NaN \<and>
     (\<forall>r s''. start s' = Some (r, s'') \<longrightarrow>
        hw_states_position s'' = replicate (length (joints (info s'))) (Fin 0) \<and>
        hw_states_velocity s'' = replicate (length (joints (info s'))) (Fin 0) \<and>
        hw_commands s'' = replicate (length (joints (info s'))) (Fin 0))"
proof -
  obtain xs where "resetTravelOffset e t = t\<lparr>hw_states_position_offset := xs\<rparr>"
    using resetTravelOffset_frame [of e t] by blast
  then have frame: "hw_states_position (resetTravelOffset e t) = hw_states_position t"
    "hw_states_velocity (resetTravelOffset e t) = hw_states_velocity t"
    "hw_commands (resetTravelOffset e t) = hw_commands t"
    by simp_all
  obtain s1 where s1: "configure_parameters stod s0 = Inr s1"
    using assms(1,5)
    by (cases "configure_parameters stod s0") (simp_all add: configure_def and_then_def)
  let ?s2 = "configure_hardware enc s1"
  let ?n = "length (joints (info s0))"
  have s': "s' = ?s2\<lparr>status := CONFIGURED\<rparr>"
    using assms(1,5) s1
    by (auto simp: configure_def and_then_def Let_def split: option.splits
        dest: validate_joints_result)
  have n: "joints (info s') = joints (info s0)"
    using configure_parameters_Inr [OF s1] by (simp add: s' configure_hardware_frame)
  have vectors: "hw_states_position s' = replicate ?n NaN"
    "hw_states_velocity s' = replicate ?n NaN" "hw_commands s' = replicate ?n NaN"
    "length (hw_states_position_offset s') = ?n"
    using configure_parameters_Inr [OF s1] assms(2-4)
    by (simp_all add: s' configure_hardware_frame resize_def)
  have agree: "sizes_agree s'"
    using vectors by (simp add: sizes_agree_def)
  have started: "hw_states_position s'' = replicate ?n (Fin 0) \<and>
      hw_states_velocity s'' = replicate ?n (Fin 0) \<and> hw_commands s'' = replicate ?n (Fin 0)"
    if "start s' = Some (r, s'')" for r s''
  proof -
    have len: "length (hw_states_position s'') = ?n"
      and seeded: "\<And>i. i < ?n \<Longrightarrow> seeded s' s'' i"
      using start_Some [OF that agree] vectors(1) by simp_all
    have "sizes_agree s''"
      using that fold_start_step [of "length (hw_states_position s')" s'] agree
      by (auto simp: start_def sizes_agree_def split: option.splits)
    then have lens: "length (hw_states_velocity s'') = ?n" "length (hw_commands s'') = ?n"
      using len by (simp_all add: sizes_agree_def)
    have zero: "hw_states_position s'' ! i = Fin 0 \<and> hw_states_velocity s'' ! i = Fin 0 \<and>
        hw_commands s'' ! i = Fin 0" if "i < ?n" for i
      using seeded [OF that] that vectors(1) by (simp add: seeded_def)
    show ?thesis
      using len lens zero by (simp add: list_eq_iff_nth_eq)
  qed
  show ?thesis
    using frame vectors started by (simp add: n)
qed

theorem resetTravelOffset_writes_offset_only_witness:
  "\<exists>s' s''. configure example_stod store_info (Some travel_1m) example_info constructed =
       Inr (OK, s') \<and>
     hw_states_position s' = [NaN, NaN] \<and> hw_states_velocity s' = [NaN, NaN] \<and>
     hw_commands s' = [NaN, NaN] \<and>
     start s' = Some (OK, s'') \<and>
     hw_states_position s'' = [Fin 0, Fin 0] \<and> hw_states_velocity s'' = [Fin 0, Fin 0] \<and>
     hw_commands s'' = [Fin 0, Fin 0]"
proof -
  let ?s0 = "constructed\<lparr>info := example_info, status := UNCONFIGURED\<rparr>"
  have h1: "store_info example_info constructed = (OK, ?s0)"
    by (simp add: store_info_def)
  have h2: "hw_states_position ?s0 = []" "hw_states_velocity ?s0 = []" "hw_commands ?s0 = []"
    by (simp_all add: constructed_def)
  obtain s' where s':
    "configure example_stod store_info (Some travel_1m) example_info constructed = Inr (OK, s')"
    "hw_start_sec s' = Fin 2" "length (joints (info s')) = 2"
    by (simp add: example_info_def example_parameters_def example_stod_def constructed_def
      wheel_joint_def store_info_def travel_1m_def
      configure_def configure_parameters_def and_then_def stod_parameter_def
      hardware_parameter_def resize_def configure_hardware_def resetTravelOffset_def
      resetTravelOffset_step_def linearToAngular_def getTravel_def LEFT_def
      validate_joint_def HW_IF_VELOCITY_def HW_IF_POSITION_def)
  obtain s'' where s'': "start s' = Some (OK, s'')"
    using start_returns [OF s'(2)] by simp
  show ?thesis
    using resetTravelOffset_writes_offset_only
        [of store_info example_info constructed ?s0 example_stod "Some travel_1m" s',
         OF h1 h2 s'(1)] s'(1,3) s''
    by (simp add: numeral_2_eq_2)
qed

end
